theory Spec2Isabelle
  imports Main "HOL-Library.Word"
begin

unbundle bit_operations_syntax

section \<open>NBSP: the inline operations of nbsp.h\<close>

text \<open>
  The header \<^verbatim>\<open>src/module_nbsp/src/nbsp.h\<close> holds the protocol state record and
  the inline operations \<^verbatim>\<open>nbsp_receive_msg\<close>, \<^verbatim>\<open>nbsp_received_data\<close>,
  \<^verbatim>\<open>nbsp_uddw_send\<close>, \<^verbatim>\<open>nbsp_uddw_handle_ack\<close> and \<^verbatim>\<open>nbsp_uddw_receive\<close>.
  An \<^verbatim>\<open>unsigned\<close> is a 32-bit word, an \<^verbatim>\<open>unsigned char\<close> an 8-bit word; the
  by-reference state and the buffer array are passed in and returned updated.
  \<^verbatim>\<open>CHECK_FOR_PROGRAMMING_ERRORS\<close> is defined as 0, so the diagnostic blocks
  guarded by it are not part of the compiled functions.
\<close>

subsection \<open>The protocol state\<close>

record t_nbsp_state =
  msg_is_ack :: "32 word"
  msg_data :: "32 word"
  words_to_be_acknowledged :: "32 word"
  read_index :: "32 word"
  write_index :: "32 word"
  buffer_mask :: "32 word"

definition NBSP_CT_DATA :: "8 word" where
  "NBSP_CT_DATA = 0x5"

subsection \<open>The channel end\<close>

text \<open>
  Modelled from the spec: the transport primitives of section 6
  (\<^verbatim>\<open>inct\<close>, \<^verbatim>\<open>inuint\<close>, \<^verbatim>\<open>outct\<close>, \<^verbatim>\<open>outuint\<close>) and the end-of-transfer token are
  built-ins of the platform header, which is not part of the repository. A channel carries
  control tokens and 32-bit words in FIFO order. A channel end is the queue of
  items the peer delivers to it (\<open>chan_in\<close>, next item first) and the items it has
  emitted so far (\<open>chan_out\<close>, oldest first). An input on an empty queue suspends the
  caller (\<open>Blocked\<close>); an input that meets the other kind of item does not deliver a
  value (\<open>Illegal_Token\<close>). An output appends to \<open>chan_out\<close>. The end-of-transfer
  token is the platform's \<^verbatim>\<open>XS1_CT_END\<close>, token value 1.
\<close>

datatype chan_item = Token "8 word" | Uint "32 word"

record chanend =
  chan_in :: "chan_item list"
  chan_out :: "chan_item list"

datatype error = Blocked | Illegal_Token | Bounds_Trap

definition XS1_CT_END :: "8 word" where
  "XS1_CT_END = 0x1"

definition inct :: "chanend \<Rightarrow> error + (8 word \<times> chanend)" where
  "inct c =
     (case chan_in c of
        [] \<Rightarrow> Inl Blocked
      | Token t # rest \<Rightarrow> Inr (t, c\<lparr>chan_in := rest\<rparr>)
      | Uint w # rest \<Rightarrow> Inl Illegal_Token)"

definition inuint :: "chanend \<Rightarrow> error + (32 word \<times> chanend)" where
  "inuint c =
     (case chan_in c of
        [] \<Rightarrow> Inl Blocked
      | Token t # rest \<Rightarrow> Inl Illegal_Token
      | Uint w # rest \<Rightarrow> Inr (w, c\<lparr>chan_in := rest\<rparr>))"


definition outuint :: "chanend \<Rightarrow> 32 word \<Rightarrow> chanend" where
  "outuint c w = c\<lparr>chan_out := chan_out c @ [Uint w]\<rparr>"

subsection \<open>The caller's buffer\<close>

text \<open>
  The buffer is an array parameter \<^verbatim>\<open>unsigned buffer[]\<close>: a list of words whose
  length is the length of the caller's array. The source indexes it with an
  \<^verbatim>\<open>unsigned\<close>; XC checks array bounds at run time, so an index at or beyond the
  length traps (\<open>Bounds_Trap\<close>) instead of touching memory.
\<close>

definition buffer_get :: "32 word list \<Rightarrow> 32 word \<Rightarrow> error + 32 word" where
  "buffer_get buffer i =
     (if unat i < length buffer then Inr (buffer ! unat i) else Inl Bounds_Trap)"

definition buffer_set :: "32 word list \<Rightarrow> 32 word \<Rightarrow> 32 word \<Rightarrow> error + 32 word list" where
  "buffer_set buffer i v =
     (if unat i < length buffer then Inr (buffer[unat i := v]) else Inl Bounds_Trap)"

subsection \<open>Initialisation\<close>

text \<open>
  Modelled from the spec: \<^verbatim>\<open>nbsp_init\<close> is declared \<^verbatim>\<open>extern\<close> in the header and its
  body is not among the sources. Section 4.1: it zeroes \<open>msg_is_ack\<close>, \<open>msg_data\<close>,
  \<open>words_to_be_acknowledged\<close>, \<open>read_index\<close> and \<open>write_index\<close>, and sets
  \<open>buffer_mask\<close> to \<open>buffer_size - 1\<close> when \<open>buffer_size > 0\<close>, else to the all-ones
  sentinel.
\<close>

definition nbsp_init :: "32 word \<Rightarrow> t_nbsp_state" where
  "nbsp_init buffer_size_in_words =
     \<lparr> msg_is_ack = 0, msg_data = 0, words_to_be_acknowledged = 0,
       read_index = 0, write_index = 0,
       buffer_mask = (if buffer_size_in_words > 0 then buffer_size_in_words - 1
                      else 0xFFFFFFFF) \<rparr>"

subsection \<open>Receiving (normal variant)\<close>

definition nbsp_receive_msg :: "chanend \<Rightarrow> t_nbsp_state \<Rightarrow> error + (chanend \<times> t_nbsp_state)" where
  "nbsp_receive_msg c state =
     (case inct c of
        Inl e \<Rightarrow> Inl e
      | Inr (token, c1) \<Rightarrow>
          if token = NBSP_CT_DATA then
            (case inuint c1 of
               Inl e \<Rightarrow> Inl e
             | Inr (w, c2) \<Rightarrow> Inr (c2, state\<lparr>msg_is_ack := 0, msg_data := w\<rparr>))
          else Inr (c1, state\<lparr>msg_is_ack := 1\<rparr>))"

definition nbsp_received_data :: "t_nbsp_state \<Rightarrow> 32 word" where
  "nbsp_received_data state = msg_data state"

subsection \<open>The UDDW variant\<close>

text \<open>
  \<^verbatim>\<open>nbsp_uddw_send\<close> returns its \<^verbatim>\<open>unsigned\<close> result together with the channel
  end, the state and the buffer as the call leaves them.
\<close>

definition nbsp_uddw_send ::
  "chanend \<Rightarrow> t_nbsp_state \<Rightarrow> 32 word list \<Rightarrow> 32 word \<Rightarrow> 32 word
    \<Rightarrow> error + (32 word \<times> chanend \<times> t_nbsp_state \<times> 32 word list)" where
  "nbsp_uddw_send c state buffer data1 data2 =
     (if words_to_be_acknowledged state = 0 then
        Inr (1, outuint (outuint c data1) data2,
             state\<lparr>words_to_be_acknowledged := 2\<rparr>, buffer)
      else
        let next_write_index = (write_index state + 2) AND buffer_mask state in
        if next_write_index \<noteq> read_index state then
          (case buffer_set buffer (write_index state) data1 of
             Inl e \<Rightarrow> Inl e
           | Inr buffer1 \<Rightarrow>
               (case buffer_set buffer1 (write_index state + 1) data2 of
                  Inl e \<Rightarrow> Inl e
                | Inr buffer2 \<Rightarrow>
                    Inr (1, c, state\<lparr>write_index := next_write_index\<rparr>, buffer2)))
        else Inr (0, c, state, buffer))"

text \<open>
  \<^verbatim>\<open>nbsp_uddw_handle_ack\<close> only reads the buffer, so it returns the channel end and
  the state.
\<close>

definition nbsp_uddw_handle_ack ::
  "chanend \<Rightarrow> t_nbsp_state \<Rightarrow> 32 word list \<Rightarrow> error + (chanend \<times> t_nbsp_state)" where
  "nbsp_uddw_handle_ack c state buffer =
     (case inct c of
        Inl e \<Rightarrow> Inl e
      | Inr (token, c1) \<Rightarrow>
          if read_index state \<noteq> write_index state then
            (case buffer_get buffer (read_index state) of
               Inl e \<Rightarrow> Inl e
             | Inr w1 \<Rightarrow>
                 (case buffer_get buffer (read_index state + 1) of
                    Inl e \<Rightarrow> Inl e
                  | Inr w2 \<Rightarrow>
                      Inr (outuint (outuint c1 w1) w2,
                           state\<lparr>read_index := (read_index state + 2) AND buffer_mask state\<rparr>)))
          else Inr (c1, state\<lparr>words_to_be_acknowledged := 0\<rparr>))"


subsection \<open>Sequences of UDDW sender calls\<close>

text \<open>
  A sender's history is a sequence of calls of \<^verbatim>\<open>nbsp_uddw_send\<close> and
  \<^verbatim>\<open>nbsp_uddw_handle_ack\<close> on one channel end, state and buffer. \<open>uddw_step\<close>
  performs one call on the configuration the caller holds; \<open>uddw_run\<close> lists the
  configuration at every operation boundary: before the first call and after each
  call that returns. The run ends at the first call that does not return. The
  tokens the peer delivers during the run are the \<open>chan_in\<close> of the first
  configuration.
\<close>

datatype uddw_call = Uddw_Send "32 word" "32 word" | Uddw_Handle_Ack

record uddw_config =
  cfg_chan :: chanend
  cfg_state :: t_nbsp_state
  cfg_buffer :: "32 word list"

fun uddw_step :: "uddw_call \<Rightarrow> uddw_config \<Rightarrow> error + uddw_config" where
  "uddw_step (Uddw_Send data1 data2) cfg =
     (case nbsp_uddw_send (cfg_chan cfg) (cfg_state cfg) (cfg_buffer cfg) data1 data2 of
        Inl e \<Rightarrow> Inl e
      | Inr (r, c', state', buffer') \<Rightarrow>
          Inr \<lparr>cfg_chan = c', cfg_state = state', cfg_buffer = buffer'\<rparr>)"
| "uddw_step Uddw_Handle_Ack cfg =
     (case nbsp_uddw_handle_ack (cfg_chan cfg) (cfg_state cfg) (cfg_buffer cfg) of
        Inl e \<Rightarrow> Inl e
      | Inr (c', state') \<Rightarrow>
          Inr \<lparr>cfg_chan = c', cfg_state = state', cfg_buffer = cfg_buffer cfg\<rparr>)"

fun uddw_run :: "uddw_call list \<Rightarrow> uddw_config \<Rightarrow> uddw_config list" where
  "uddw_run [] cfg = [cfg]"
| "uddw_run (call # calls) cfg =
     cfg # (case uddw_step call cfg of Inl e \<Rightarrow> [] | Inr cfg' \<Rightarrow> uddw_run calls cfg')"

text \<open>
  \<open>acks_only_when_pending\<close>: every \<^verbatim>\<open>nbsp_uddw_handle_ack\<close> of the run is called
  in a state whose \<open>words_to_be_acknowledged\<close> is not 0.
\<close>

fun acks_only_when_pending :: "uddw_call list \<Rightarrow> uddw_config \<Rightarrow> bool" where
  "acks_only_when_pending [] cfg = True"
| "acks_only_when_pending (call # calls) cfg =
     ((call \<noteq> Uddw_Handle_Ack \<or> words_to_be_acknowledged (cfg_state cfg) \<noteq> 0) \<and>
      (case uddw_step call cfg of
         Inl e \<Rightarrow> True
       | Inr cfg' \<Rightarrow> acks_only_when_pending calls cfg'))"

subsection \<open>Invariants of the UDDW sender\<close>

text \<open>
  Two predicates used in the proofs below. \<open>uddw_idle_or_pending\<close>: either nothing is
  in flight and the ring buffer is empty, or one pair is in flight.
  \<open>uddw_indices_ok k\<close>: for a buffer of \<open>2 ^ k\<close> words, the mask is \<open>2 ^ k - 1\<close>, both
  indices are even and below \<open>2 ^ k\<close>, and the buffer still has \<open>2 ^ k\<close> words.
\<close>

definition uddw_idle_or_pending :: "t_nbsp_state \<Rightarrow> bool" where
  "uddw_idle_or_pending state \<longleftrightarrow>
     (words_to_be_acknowledged state = 0 \<and> read_index state = write_index state) \<or>
     words_to_be_acknowledged state = 2"

definition uddw_indices_ok :: "nat \<Rightarrow> uddw_config \<Rightarrow> bool" where
  "uddw_indices_ok k cfg \<longleftrightarrow>
     buffer_mask (cfg_state cfg) = 2 ^ k - 1 \<and>
     even (read_index (cfg_state cfg)) \<and> even (write_index (cfg_state cfg)) \<and>
     read_index (cfg_state cfg) < 2 ^ k \<and> write_index (cfg_state cfg) < 2 ^ k \<and>
     length (cfg_buffer cfg) = 2 ^ k"

text \<open>
  The configuration and the calls of the worked example: a sender initialised with a
  buffer of four words, whose peer acknowledges twice.
\<close>

definition example_config :: uddw_config where
  "example_config =
     \<lparr>cfg_chan = \<lparr>chan_in = [Token XS1_CT_END, Token XS1_CT_END], chan_out = []\<rparr>,
      cfg_state = nbsp_init 4, cfg_buffer = [0, 0, 0, 0]\<rparr>"

definition example_calls :: "uddw_call list" where
  "example_calls =
     [Uddw_Send 1 2, Uddw_Send 3 4, Uddw_Send 5 6, Uddw_Handle_Ack, Uddw_Handle_Ack]"

section \<open>Single calls\<close>

subsection \<open>nbsp_uddw_send\<close>

text \<open>
  Claim C1. In a state with \<open>words_to_be_acknowledged = 0\<close>, \<^verbatim>\<open>nbsp_uddw_send\<close> emits
  \<open>data1\<close> then \<open>data2\<close> on the channel and nothing before them, sets
  \<open>words_to_be_acknowledged\<close> to 2 and returns 1. In a state with
  \<open>words_to_be_acknowledged \<noteq> 0\<close> and \<open>(write_index + 2) AND buffer_mask \<noteq> read_index\<close>,
  whose slots \<open>write_index\<close> and \<open>write_index + 1\<close> lie in the buffer array, it stores
  \<open>data1\<close> and \<open>data2\<close> in these two slots, sets \<open>write_index\<close> to
  \<open>(write_index + 2) AND buffer_mask\<close> and returns 1; the channel end is the one it was
  given, so nothing is emitted.
\<close>

theorem nbsp_uddw_send_sends_or_buffers:
  "(words_to_be_acknowledged state = 0 \<longrightarrow>
      nbsp_uddw_send c state buffer data1 data2 =
        Inr (1, c\<lparr>chan_out := chan_out c @ [Uint data1, Uint data2]\<rparr>,
             state\<lparr>words_to_be_acknowledged := 2\<rparr>, buffer)) \<and>
   (words_to_be_acknowledged state \<noteq> 0 \<and>
    (write_index state + 2) AND buffer_mask state \<noteq> read_index state \<and>
    unat (write_index state) < length buffer \<and>
    unat (write_index state + 1) < length buffer \<longrightarrow>
      nbsp_uddw_send c state buffer data1 data2 =
        Inr (1, c, state\<lparr>write_index := (write_index state + 2) AND buffer_mask state\<rparr>,
             buffer[unat (write_index state) := data1, unat (write_index state + 1) := data2]))"
  by (simp add: nbsp_uddw_send_def outuint_def buffer_set_def Let_def)

theorem nbsp_uddw_send_sends_or_buffers_witness:
  "words_to_be_acknowledged (nbsp_init 4) = 0 \<and>
   nbsp_uddw_send \<lparr>chan_in = [], chan_out = []\<rparr> (nbsp_init 4) [0, 0, 0, 0] 1 2 =
     Inr (1, \<lparr>chan_in = [], chan_out = [Uint 1, Uint 2]\<rparr>,
          \<lparr>msg_is_ack = 0, msg_data = 0, words_to_be_acknowledged = 2,
           read_index = 0, write_index = 0, buffer_mask = 3\<rparr>, [0, 0, 0, 0]) \<and>
   nbsp_uddw_send \<lparr>chan_in = [], chan_out = [Uint 1, Uint 2]\<rparr>
       \<lparr>msg_is_ack = 0, msg_data = 0, words_to_be_acknowledged = 2,
        read_index = 0, write_index = 0, buffer_mask = 3\<rparr> [0, 0, 0, 0] 3 4 =
     Inr (1, \<lparr>chan_in = [], chan_out = [Uint 1, Uint 2]\<rparr>,
          \<lparr>msg_is_ack = 0, msg_data = 0, words_to_be_acknowledged = 2,
           read_index = 0, write_index = 2, buffer_mask = 3\<rparr>, [3, 4, 0, 0])"
  using nbsp_uddw_send_sends_or_buffers
      [of "nbsp_init 4" "\<lparr>chan_in = [], chan_out = []\<rparr>" "[0, 0, 0, 0]" 1 2]
    nbsp_uddw_send_sends_or_buffers
      [of "\<lparr>msg_is_ack = 0, msg_data = 0, words_to_be_acknowledged = 2,
            read_index = 0, write_index = 0, buffer_mask = 3\<rparr>"
          "\<lparr>chan_in = [], chan_out = [Uint 1, Uint 2]\<rparr>" "[0, 0, 0, 0]" 3 4]
  by (simp add: nbsp_init_def)

text \<open>
  Claim C5. \<^verbatim>\<open>nbsp_uddw_send\<close> returns 0 exactly when
  \<open>words_to_be_acknowledged \<noteq> 0\<close> and \<open>(write_index + 2) AND buffer_mask = read_index\<close>;
  it then returns the channel end, the state and the buffer it was given: no output,
  no field and no buffer element changed, the pair dropped.
\<close>

theorem nbsp_uddw_send_returns_0_iff_full:
  "((\<exists>c' state' buffer'.
       nbsp_uddw_send c state buffer data1 data2 = Inr (0, c', state', buffer')) \<longleftrightarrow>
    (words_to_be_acknowledged state \<noteq> 0 \<and>
     (write_index state + 2) AND buffer_mask state = read_index state)) \<and>
   (words_to_be_acknowledged state \<noteq> 0 \<and>
    (write_index state + 2) AND buffer_mask state = read_index state \<longrightarrow>
      nbsp_uddw_send c state buffer data1 data2 = Inr (0, c, state, buffer))"
  by (auto simp add: nbsp_uddw_send_def Let_def buffer_set_def split: sum.splits if_splits)

theorem nbsp_uddw_send_returns_0_iff_full_witness:
  "words_to_be_acknowledged
     \<lparr>msg_is_ack = 0, msg_data = 0, words_to_be_acknowledged = 2,
      read_index = 0, write_index = 2, buffer_mask = 3\<rparr> \<noteq> 0 \<and>
   (write_index
     \<lparr>msg_is_ack = 0, msg_data = 0, words_to_be_acknowledged = 2,
      read_index = 0, write_index = 2, buffer_mask = 3\<rparr> + 2) AND 3 = (0::32 word) \<and>
   nbsp_uddw_send \<lparr>chan_in = [], chan_out = [Uint 1, Uint 2]\<rparr>
       \<lparr>msg_is_ack = 0, msg_data = 0, words_to_be_acknowledged = 2,
        read_index = 0, write_index = 2, buffer_mask = 3\<rparr> [3, 4, 0, 0] 5 6 =
     Inr (0, \<lparr>chan_in = [], chan_out = [Uint 1, Uint 2]\<rparr>,
          \<lparr>msg_is_ack = 0, msg_data = 0, words_to_be_acknowledged = 2,
           read_index = 0, write_index = 2, buffer_mask = 3\<rparr>, [3, 4, 0, 0])"
  using nbsp_uddw_send_returns_0_iff_full
      [of "\<lparr>chan_in = [], chan_out = [Uint 1, Uint 2]\<rparr>"
          "\<lparr>msg_is_ack = 0, msg_data = 0, words_to_be_acknowledged = 2,
            read_index = 0, write_index = 2, buffer_mask = 3\<rparr>" "[3, 4, 0, 0]" 5 6]
  by simp

subsection \<open>nbsp_uddw_handle_ack\<close>



subsection \<open>nbsp_uddw_receive\<close>



subsection \<open>nbsp_receive_msg and nbsp_received_data\<close>

text \<open>
  Claim C4. With a control token next on the channel, \<^verbatim>\<open>nbsp_receive_msg\<close> takes
  exactly that token and emits nothing (\<open>chan_out\<close> is as before). If the token is
  \<^verbatim>\<open>NBSP_CT_DATA\<close> (0x5) and a word follows, it takes that word too, stores it in
  \<open>msg_data\<close> and sets \<open>msg_is_ack\<close> to 0, and \<^verbatim>\<open>nbsp_received_data\<close> on the resulting
  state returns the word. For any other token it sets \<open>msg_is_ack\<close> to 1 and takes
  nothing more from the channel.
\<close>

theorem nbsp_receive_msg_parses_one_message:
  assumes "chan_in c = Token token # rest"
  shows "NBSP_CT_DATA = 0x5 \<and>
         (token = NBSP_CT_DATA \<and> rest = Uint w # rest' \<longrightarrow>
            nbsp_receive_msg c state =
              Inr (c\<lparr>chan_in := rest'\<rparr>, state\<lparr>msg_is_ack := 0, msg_data := w\<rparr>) \<and>
            nbsp_received_data (state\<lparr>msg_is_ack := 0, msg_data := w\<rparr>) = w) \<and>
         (token \<noteq> NBSP_CT_DATA \<longrightarrow>
            nbsp_receive_msg c state = Inr (c\<lparr>chan_in := rest\<rparr>, state\<lparr>msg_is_ack := 1\<rparr>))"
  using assms
  by (simp add: nbsp_receive_msg_def inct_def inuint_def nbsp_received_data_def NBSP_CT_DATA_def)

theorem nbsp_receive_msg_parses_one_message_witness:
  "chan_in \<lparr>chan_in = [Token NBSP_CT_DATA, Uint 99, Token XS1_CT_END], chan_out = []\<rparr> =
     Token NBSP_CT_DATA # [Uint 99, Token XS1_CT_END] \<and>
   nbsp_receive_msg \<lparr>chan_in = [Token NBSP_CT_DATA, Uint 99, Token XS1_CT_END], chan_out = []\<rparr>
       \<lparr>msg_is_ack = 1, msg_data = 0, words_to_be_acknowledged = 0,
        read_index = 0, write_index = 0, buffer_mask = 1\<rparr> =
     Inr (\<lparr>chan_in = [Token XS1_CT_END], chan_out = []\<rparr>,
          \<lparr>msg_is_ack = 0, msg_data = 99, words_to_be_acknowledged = 0,
           read_index = 0, write_index = 0, buffer_mask = 1\<rparr>) \<and>
   nbsp_received_data
       \<lparr>msg_is_ack = 0, msg_data = 99, words_to_be_acknowledged = 0,
        read_index = 0, write_index = 0, buffer_mask = 1\<rparr> = 99 \<and>
   XS1_CT_END \<noteq> NBSP_CT_DATA \<and>
   nbsp_receive_msg \<lparr>chan_in = [Token XS1_CT_END, Uint 7], chan_out = []\<rparr>
       \<lparr>msg_is_ack = 0, msg_data = 0, words_to_be_acknowledged = 0,
        read_index = 0, write_index = 0, buffer_mask = 1\<rparr> =
     Inr (\<lparr>chan_in = [Uint 7], chan_out = []\<rparr>,
          \<lparr>msg_is_ack = 1, msg_data = 0, words_to_be_acknowledged = 0,
           read_index = 0, write_index = 0, buffer_mask = 1\<rparr>)"
proof -
  have ne: "XS1_CT_END \<noteq> NBSP_CT_DATA"
    by (simp add: XS1_CT_END_def NBSP_CT_DATA_def)
  have data: "chan_in \<lparr>chan_in = [Token NBSP_CT_DATA, Uint 99, Token XS1_CT_END], chan_out = []\<rparr> =
      Token NBSP_CT_DATA # [Uint 99, Token XS1_CT_END]"
    by simp
  have ack: "chan_in \<lparr>chan_in = [Token XS1_CT_END, Uint 7], chan_out = []\<rparr> =
      Token XS1_CT_END # [Uint 7]"
    by simp
  show ?thesis
    using ne data
      nbsp_receive_msg_parses_one_message [OF data, of 99 "[Token XS1_CT_END]"
        "\<lparr>msg_is_ack = 1, msg_data = 0, words_to_be_acknowledged = 0,
          read_index = 0, write_index = 0, buffer_mask = 1\<rparr>"]
      nbsp_receive_msg_parses_one_message [OF ack, of 0 "[]"
        "\<lparr>msg_is_ack = 0, msg_data = 0, words_to_be_acknowledged = 0,
          read_index = 0, write_index = 0, buffer_mask = 1\<rparr>"]
    by simp
qed

text \<open>
  Claim C10. A call of \<^verbatim>\<open>nbsp_receive_msg\<close> that returns leaves
  \<open>words_to_be_acknowledged\<close>, \<open>read_index\<close>, \<open>write_index\<close> and \<open>buffer_mask\<close> as they
  were: the state it returns differs from the one it was given in \<open>msg_is_ack\<close> and
  \<open>msg_data\<close> at most. When the token received is not \<^verbatim>\<open>NBSP_CT_DATA\<close>, \<open>msg_data\<close>
  keeps its value too.
\<close>

theorem nbsp_receive_msg_frame:
  assumes "nbsp_receive_msg c state = Inr (c', state')"
  shows "words_to_be_acknowledged state' = words_to_be_acknowledged state \<and>
         read_index state' = read_index state \<and>
         write_index state' = write_index state \<and>
         buffer_mask state' = buffer_mask state \<and>
         state' = state\<lparr>msg_is_ack := msg_is_ack state', msg_data := msg_data state'\<rparr> \<and>
         (\<forall>token rest. chan_in c = Token token # rest \<and> token \<noteq> NBSP_CT_DATA \<longrightarrow>
            msg_data state' = msg_data state \<and> msg_is_ack state' = 1)"
  using assms
  by (auto simp add: nbsp_receive_msg_def inct_def inuint_def
      split: sum.splits list.splits chan_item.splits if_splits)

theorem nbsp_receive_msg_frame_witness:
  "nbsp_receive_msg \<lparr>chan_in = [Token XS1_CT_END], chan_out = []\<rparr>
       \<lparr>msg_is_ack = 0, msg_data = 42, words_to_be_acknowledged = 1,
        read_index = 1, write_index = 3, buffer_mask = 3\<rparr> =
     Inr (\<lparr>chan_in = [], chan_out = []\<rparr>,
          \<lparr>msg_is_ack = 1, msg_data = 42, words_to_be_acknowledged = 1,
           read_index = 1, write_index = 3, buffer_mask = 3\<rparr>) \<and>
   XS1_CT_END \<noteq> NBSP_CT_DATA \<and>
   msg_data \<lparr>msg_is_ack = 1, msg_data = 42, words_to_be_acknowledged = 1,
             read_index = 1, write_index = 3, buffer_mask = 3\<rparr> = 42"
proof -
  have run: "nbsp_receive_msg \<lparr>chan_in = [Token XS1_CT_END], chan_out = []\<rparr>
       \<lparr>msg_is_ack = 0, msg_data = 42, words_to_be_acknowledged = 1,
        read_index = 1, write_index = 3, buffer_mask = 3\<rparr> =
     Inr (\<lparr>chan_in = [], chan_out = []\<rparr>,
          \<lparr>msg_is_ack = 1, msg_data = 42, words_to_be_acknowledged = 1,
           read_index = 1, write_index = 3, buffer_mask = 3\<rparr>)"
    by (simp add: nbsp_receive_msg_def inct_def XS1_CT_END_def NBSP_CT_DATA_def)
  have ne: "XS1_CT_END \<noteq> NBSP_CT_DATA"
    by (simp add: XS1_CT_END_def NBSP_CT_DATA_def)
  from nbsp_receive_msg_frame [OF run] ne show ?thesis
    using run by simp
qed

section \<open>The streaming scenario\<close>

text \<open>
  Claim C7. A sender initialised with \<open>buffer_size = 4\<close> starts with
  \<open>words_to_be_acknowledged = 0\<close>, \<open>read_index = write_index = 0\<close> and
  \<open>buffer_mask = 3\<close>. \<^verbatim>\<open>nbsp_uddw_send(1,2)\<close> returns 1 and emits 1 then 2.
  \<^verbatim>\<open>nbsp_uddw_send(3,4)\<close> then returns 1, emits nothing and stores the pair in slots
  0 and 1. \<^verbatim>\<open>nbsp_uddw_send(5,6)\<close> then returns 0 and changes nothing. With an
  acknowledgement token \<open>t\<close> on the channel, \<^verbatim>\<open>nbsp_uddw_handle_ack\<close> then emits 3
  then 4 and leaves \<open>read_index = write_index\<close>. The buffer starts with any contents
  \<open>b0, b1, b2, b3\<close>.
\<close>

theorem uddw_streaming_scenario:
  "nbsp_init 4 =
     \<lparr>msg_is_ack = 0, msg_data = 0, words_to_be_acknowledged = 0,
      read_index = 0, write_index = 0, buffer_mask = 3\<rparr> \<and>
   nbsp_uddw_send \<lparr>chan_in = Token t # rest, chan_out = []\<rparr> (nbsp_init 4)
       [b0, b1, b2, b3] 1 2 =
     Inr (1, \<lparr>chan_in = Token t # rest, chan_out = [Uint 1, Uint 2]\<rparr>,
          \<lparr>msg_is_ack = 0, msg_data = 0, words_to_be_acknowledged = 2,
           read_index = 0, write_index = 0, buffer_mask = 3\<rparr>, [b0, b1, b2, b3]) \<and>
   nbsp_uddw_send \<lparr>chan_in = Token t # rest, chan_out = [Uint 1, Uint 2]\<rparr>
       \<lparr>msg_is_ack = 0, msg_data = 0, words_to_be_acknowledged = 2,
        read_index = 0, write_index = 0, buffer_mask = 3\<rparr> [b0, b1, b2, b3] 3 4 =
     Inr (1, \<lparr>chan_in = Token t # rest, chan_out = [Uint 1, Uint 2]\<rparr>,
          \<lparr>msg_is_ack = 0, msg_data = 0, words_to_be_acknowledged = 2,
           read_index = 0, write_index = 2, buffer_mask = 3\<rparr>, [3, 4, b2, b3]) \<and>
   nbsp_uddw_send \<lparr>chan_in = Token t # rest, chan_out = [Uint 1, Uint 2]\<rparr>
       \<lparr>msg_is_ack = 0, msg_data = 0, words_to_be_acknowledged = 2,
        read_index = 0, write_index = 2, buffer_mask = 3\<rparr> [3, 4, b2, b3] 5 6 =
     Inr (0, \<lparr>chan_in = Token t # rest, chan_out = [Uint 1, Uint 2]\<rparr>,
          \<lparr>msg_is_ack = 0, msg_data = 0, words_to_be_acknowledged = 2,
           read_index = 0, write_index = 2, buffer_mask = 3\<rparr>, [3, 4, b2, b3]) \<and>
   nbsp_uddw_handle_ack \<lparr>chan_in = Token t # rest, chan_out = [Uint 1, Uint 2]\<rparr>
       \<lparr>msg_is_ack = 0, msg_data = 0, words_to_be_acknowledged = 2,
        read_index = 0, write_index = 2, buffer_mask = 3\<rparr> [3, 4, b2, b3] =
     Inr (\<lparr>chan_in = rest, chan_out = [Uint 1, Uint 2, Uint 3, Uint 4]\<rparr>,
          \<lparr>msg_is_ack = 0, msg_data = 0, words_to_be_acknowledged = 2,
           read_index = 2, write_index = 2, buffer_mask = 3\<rparr>) \<and>
   read_index \<lparr>msg_is_ack = 0, msg_data = 0, words_to_be_acknowledged = 2,
               read_index = 2, write_index = 2, buffer_mask = 3\<rparr> =
   write_index \<lparr>msg_is_ack = 0, msg_data = 0, words_to_be_acknowledged = 2,
                read_index = 2, write_index = 2, buffer_mask = 3\<rparr>"
  by (simp add: nbsp_init_def nbsp_uddw_send_def nbsp_uddw_handle_ack_def inct_def
      outuint_def buffer_set_def buffer_get_def)

section \<open>Sequences of calls\<close>

subsection \<open>Word arithmetic on ring-buffer indices\<close>

lemma unat_two_power: "k < 32 \<Longrightarrow> unat ((2::32 word) ^ k) = 2 ^ k"
proof -
  assume k: "k < 32"
  have "(2::nat) ^ k < 2 ^ 32"
    using k by (simp only: power_strict_increasing_iff rel_simps)
  moreover have "unat ((2::32 word) ^ k) = 2 ^ k mod 2 ^ LENGTH(32)"
    using unat_of_nat [where 'a = 32, of "2 ^ k"] by simp
  ultimately show ?thesis by simp
qed

lemma even_unat_word: "even (unat (x::32 word)) \<longleftrightarrow> even x"
  using even_of_nat [where 'a = "32 word", of "unat x"] by simp

lemma masked_less: "k < 32 \<Longrightarrow> (x::32 word) AND (2 ^ k - 1) < 2 ^ k"
  using and_mask_less' [of k x] by (simp add: mask_eq_decr_exp)

lemma masked_even: "even (x::32 word) \<Longrightarrow> even ((x + 2) AND m)"
  by (simp add: even_and_iff)

lemma even_index_succ:
  assumes "k < 32" "1 \<le> k" "even (x::32 word)" "x < 2 ^ k"
  shows "unat (x + 1) = unat x + 1 \<and> unat x + 1 < 2 ^ k"
proof -
  have lt: "unat x < 2 ^ k"
    using assms(1,4) by (simp add: word_less_nat_alt unat_two_power)
  have ev: "even (unat x)"
    using assms(3) by (simp add: even_unat_word)
  have "even ((2::nat) ^ k)"
    using assms(2) by simp
  with lt ev have less: "unat x + 1 < 2 ^ k"
    by presburger
  have "(2::nat) ^ k < 2 ^ 32"
    using assms(1) by (simp only: power_strict_increasing_iff rel_simps)
  with less have "unat x + unat (1::32 word) < 2 ^ LENGTH(32)"
    by simp
  then have "unat (x + 1) = unat x + unat (1::32 word)"
    by (simp only: unat_add_lem)
  with less show ?thesis by simp
qed

lemma index_in_buffer:
  assumes "k < 32" "1 \<le> k" "even (x::32 word)" "x < 2 ^ k" "length buffer = 2 ^ k"
  shows "unat x < length buffer \<and> unat (x + 1) < length buffer"
  using even_index_succ [OF assms(1-4)] assms(5) by simp

subsection \<open>The sender is idle with an empty buffer, or has a pair in flight\<close>

lemma nbsp_uddw_send_idle_or_pending:
  assumes "nbsp_uddw_send c state buffer data1 data2 = Inr (r, c', state', buffer')"
    and "uddw_idle_or_pending state"
  shows "uddw_idle_or_pending state'"
  using assms
  by (auto simp add: nbsp_uddw_send_def uddw_idle_or_pending_def Let_def
      split: if_splits sum.splits)

lemma nbsp_uddw_handle_ack_idle_or_pending:
  assumes "nbsp_uddw_handle_ack c state buffer = Inr (c', state')"
    and "uddw_idle_or_pending state"
  shows "uddw_idle_or_pending state'"
  using assms
  by (auto simp add: nbsp_uddw_handle_ack_def uddw_idle_or_pending_def
      split: if_splits sum.splits prod.splits)

lemma uddw_step_idle_or_pending:
  assumes "uddw_step call cfg = Inr cfg'" and "uddw_idle_or_pending (cfg_state cfg)"
  shows "uddw_idle_or_pending (cfg_state cfg')"
proof (cases call)
  case (Uddw_Send data1 data2)
  with assms show ?thesis
    by (auto split: sum.splits dest: nbsp_uddw_send_idle_or_pending)
next
  case Uddw_Handle_Ack
  with assms show ?thesis
    by (auto split: sum.splits dest: nbsp_uddw_handle_ack_idle_or_pending)
qed

lemma uddw_run_idle_or_pending:
  "uddw_idle_or_pending (cfg_state cfg) \<Longrightarrow>
   \<forall>x \<in> set (uddw_run calls cfg). uddw_idle_or_pending (cfg_state x)"
proof (induction calls arbitrary: cfg)
  case Nil
  then show ?case by simp
next
  case (Cons call calls)
  show ?case
  proof (cases "uddw_step call cfg")
    case (Inl e)
    with Cons.prems show ?thesis by simp
  next
    case (Inr cfg')
    with Cons.prems have "uddw_idle_or_pending (cfg_state cfg')"
      by (blast intro: uddw_step_idle_or_pending)
    then have "\<forall>x \<in> set (uddw_run calls cfg'). uddw_idle_or_pending (cfg_state x)"
      by (rule Cons.IH)
    with Inr Cons.prems show ?thesis by simp
  qed
qed

lemma nbsp_init_idle_or_pending: "uddw_idle_or_pending (nbsp_init buffer_size)"
  by (simp add: nbsp_init_def uddw_idle_or_pending_def)

text \<open>
  Claim C3. Start from a state initialised by \<^verbatim>\<open>nbsp_init\<close>
  (\<open>words_to_be_acknowledged = 0\<close>, \<open>read_index = write_index = 0\<close>), with any buffer
  size, buffer and channel, and run any sequence of \<^verbatim>\<open>nbsp_uddw_send\<close> and
  \<^verbatim>\<open>nbsp_uddw_handle_ack\<close> calls in which every \<^verbatim>\<open>nbsp_uddw_handle_ack\<close> is called
  with \<open>words_to_be_acknowledged \<noteq> 0\<close>. At every operation boundary
  \<open>words_to_be_acknowledged\<close> is 0 or 2.
\<close>

theorem uddw_words_to_be_acknowledged_0_or_2:
  assumes "acks_only_when_pending calls
             \<lparr>cfg_chan = c, cfg_state = nbsp_init buffer_size, cfg_buffer = buffer\<rparr>"
  shows "\<forall>cfg \<in> set (uddw_run calls
             \<lparr>cfg_chan = c, cfg_state = nbsp_init buffer_size, cfg_buffer = buffer\<rparr>).
           words_to_be_acknowledged (cfg_state cfg) = 0 \<or>
           words_to_be_acknowledged (cfg_state cfg) = 2"
proof -
  have "\<forall>cfg \<in> set (uddw_run calls
             \<lparr>cfg_chan = c, cfg_state = nbsp_init buffer_size, cfg_buffer = buffer\<rparr>).
          uddw_idle_or_pending (cfg_state cfg)"
    by (rule uddw_run_idle_or_pending) (simp add: nbsp_init_idle_or_pending)
  then show ?thesis
    by (auto simp add: uddw_idle_or_pending_def)
qed

theorem uddw_words_to_be_acknowledged_0_or_2_witness:
  "acks_only_when_pending example_calls example_config \<and>
   list_all (\<lambda>cfg. words_to_be_acknowledged (cfg_state cfg) = 0 \<or>
                    words_to_be_acknowledged (cfg_state cfg) = 2)
     (uddw_run example_calls example_config) \<and>
   map (\<lambda>cfg. words_to_be_acknowledged (cfg_state cfg))
     (uddw_run example_calls example_config) = [0, 2, 2, 2, 2, 0]"
proof -
  have guard: "acks_only_when_pending example_calls
      \<lparr>cfg_chan = \<lparr>chan_in = [Token XS1_CT_END, Token XS1_CT_END], chan_out = []\<rparr>,
       cfg_state = nbsp_init 4, cfg_buffer = [0, 0, 0, 0]\<rparr>"
    by (simp add: example_calls_def example_config_def nbsp_init_def nbsp_uddw_send_def
        nbsp_uddw_handle_ack_def inct_def outuint_def buffer_set_def buffer_get_def)
  have trace: "map (\<lambda>cfg. words_to_be_acknowledged (cfg_state cfg))
      (uddw_run example_calls example_config) = [0, 2, 2, 2, 2, 0]"
    by (simp add: example_calls_def example_config_def nbsp_init_def nbsp_uddw_send_def
        nbsp_uddw_handle_ack_def inct_def outuint_def buffer_set_def buffer_get_def)
  from uddw_words_to_be_acknowledged_0_or_2 [OF guard] guard trace
  show ?thesis
    unfolding list_all_iff example_config_def by blast
qed

text \<open>
  Claim C6. Start from a state initialised by \<^verbatim>\<open>nbsp_init\<close>, with any buffer size,
  buffer and channel, and run any sequence of \<^verbatim>\<open>nbsp_uddw_send\<close> and
  \<^verbatim>\<open>nbsp_uddw_handle_ack\<close> calls. At every operation boundary, a non-empty buffer
  (\<open>read_index \<noteq> write_index\<close>) implies \<open>words_to_be_acknowledged > 0\<close>.
\<close>

theorem uddw_buffered_implies_pending:
  "\<forall>cfg \<in> set (uddw_run calls
       \<lparr>cfg_chan = c, cfg_state = nbsp_init buffer_size, cfg_buffer = buffer\<rparr>).
     read_index (cfg_state cfg) \<noteq> write_index (cfg_state cfg) \<longrightarrow>
     words_to_be_acknowledged (cfg_state cfg) > 0"
proof -
  have "\<forall>cfg \<in> set (uddw_run calls
             \<lparr>cfg_chan = c, cfg_state = nbsp_init buffer_size, cfg_buffer = buffer\<rparr>).
          uddw_idle_or_pending (cfg_state cfg)"
    by (rule uddw_run_idle_or_pending) (simp add: nbsp_init_idle_or_pending)
  then show ?thesis
    by (auto simp add: uddw_idle_or_pending_def)
qed

theorem uddw_buffered_implies_pending_witness:
  "list_all (\<lambda>cfg. read_index (cfg_state cfg) \<noteq> write_index (cfg_state cfg) \<longrightarrow>
                    words_to_be_acknowledged (cfg_state cfg) > 0)
     (uddw_run example_calls example_config) \<and>
   read_index (cfg_state (uddw_run example_calls example_config ! 2)) = 0 \<and>
   write_index (cfg_state (uddw_run example_calls example_config ! 2)) = 2 \<and>
   words_to_be_acknowledged (cfg_state (uddw_run example_calls example_config ! 2)) = 2"
proof -
  have at2: "read_index (cfg_state (uddw_run example_calls example_config ! 2)) = 0 \<and>
      write_index (cfg_state (uddw_run example_calls example_config ! 2)) = 2 \<and>
      words_to_be_acknowledged (cfg_state (uddw_run example_calls example_config ! 2)) = 2"
    by (simp add: example_calls_def example_config_def nbsp_init_def nbsp_uddw_send_def
        nbsp_uddw_handle_ack_def inct_def outuint_def buffer_set_def buffer_get_def)
  from uddw_buffered_implies_pending
      [of example_calls "\<lparr>chan_in = [Token XS1_CT_END, Token XS1_CT_END], chan_out = []\<rparr>"
          4 "[0, 0, 0, 0]"] at2
  show ?thesis
    unfolding list_all_iff example_config_def by blast
qed

subsection \<open>The indices stay even and inside the buffer\<close>

lemma nbsp_uddw_send_indices_ok:
  assumes k: "k < 32" "1 \<le> k"
    and ok: "uddw_indices_ok k cfg"
  shows "uddw_step (Uddw_Send data1 data2) cfg \<noteq> Inl Bounds_Trap \<and>
         (\<forall>cfg'. uddw_step (Uddw_Send data1 data2) cfg = Inr cfg' \<longrightarrow> uddw_indices_ok k cfg')"
proof -
  have wi: "unat (write_index (cfg_state cfg)) < length (cfg_buffer cfg) \<and>
            unat (write_index (cfg_state cfg) + 1) < length (cfg_buffer cfg)"
    using ok by (intro index_in_buffer [OF k]) (simp_all add: uddw_indices_ok_def)
  have nw: "(write_index (cfg_state cfg) + 2) AND (2 ^ k - 1) < 2 ^ k"
    using k(1) by (rule masked_less)
  have ne: "even ((write_index (cfg_state cfg) + 2) AND (2 ^ k - 1))"
    using ok by (intro masked_even) (simp add: uddw_indices_ok_def)
  show ?thesis
    using ok wi nw ne
    by (auto simp add: nbsp_uddw_send_def buffer_set_def Let_def uddw_indices_ok_def)
qed

lemma nbsp_uddw_handle_ack_indices_ok:
  assumes k: "k < 32" "1 \<le> k"
    and ok: "uddw_indices_ok k cfg"
  shows "uddw_step Uddw_Handle_Ack cfg \<noteq> Inl Bounds_Trap \<and>
         (\<forall>cfg'. uddw_step Uddw_Handle_Ack cfg = Inr cfg' \<longrightarrow> uddw_indices_ok k cfg')"
proof -
  have ri: "unat (read_index (cfg_state cfg)) < length (cfg_buffer cfg) \<and>
            unat (read_index (cfg_state cfg) + 1) < length (cfg_buffer cfg)"
    using ok by (intro index_in_buffer [OF k]) (simp_all add: uddw_indices_ok_def)
  have nr: "(read_index (cfg_state cfg) + 2) AND (2 ^ k - 1) < 2 ^ k"
    using k(1) by (rule masked_less)
  have ne: "even ((read_index (cfg_state cfg) + 2) AND (2 ^ k - 1))"
    using ok by (intro masked_even) (simp add: uddw_indices_ok_def)
  show ?thesis
    using ok ri nr ne
    by (auto simp add: nbsp_uddw_handle_ack_def buffer_get_def inct_def uddw_indices_ok_def
        split: list.splits chan_item.splits)
qed

lemma uddw_step_indices_ok:
  assumes "k < 32" "1 \<le> k" "uddw_indices_ok k cfg"
  shows "uddw_step call cfg \<noteq> Inl Bounds_Trap"
    and "uddw_step call cfg = Inr cfg' \<Longrightarrow> uddw_indices_ok k cfg'"
  using nbsp_uddw_send_indices_ok [OF assms] nbsp_uddw_handle_ack_indices_ok [OF assms]
  by (cases call; blast)+

lemma uddw_run_indices_ok:
  assumes "k < 32" "1 \<le> k"
  shows "uddw_indices_ok k cfg \<Longrightarrow> \<forall>x \<in> set (uddw_run calls cfg). uddw_indices_ok k x"
proof (induction calls arbitrary: cfg)
  case Nil
  then show ?case by simp
next
  case (Cons call calls)
  show ?case
  proof (cases "uddw_step call cfg")
    case (Inl e)
    with Cons.prems show ?thesis by simp
  next
    case (Inr cfg')
    with Cons.prems have "uddw_indices_ok k cfg'"
      using uddw_step_indices_ok(2) [OF assms] by blast
    then have "\<forall>x \<in> set (uddw_run calls cfg'). uddw_indices_ok k x"
      by (rule Cons.IH)
    with Inr Cons.prems show ?thesis by simp
  qed
qed

lemma nbsp_init_indices_ok:
  assumes "k < 32" "length buffer = 2 ^ k"
  shows "uddw_indices_ok k \<lparr>cfg_chan = c, cfg_state = nbsp_init (2 ^ k), cfg_buffer = buffer\<rparr>"
proof -
  have "(0::32 word) < 2 ^ k"
    using assms(1) by (simp add: word_less_nat_alt unat_two_power)
  with assms(2) show ?thesis
    by (simp add: uddw_indices_ok_def nbsp_init_def)
qed

text \<open>
  Claim C9. Start from a state initialised by \<^verbatim>\<open>nbsp_init\<close> with a buffer size
  \<open>2 ^ k\<close>, \<open>1 \<le> k < 32\<close> (a power of two from 2 up that an \<^verbatim>\<open>unsigned\<close> holds),
  and a buffer array of that many words, and run any sequence of \<^verbatim>\<open>nbsp_uddw_send\<close>
  and \<^verbatim>\<open>nbsp_uddw_handle_ack\<close> calls. At every operation boundary \<open>read_index\<close> and
  \<open>write_index\<close> are even and below the buffer size, the array still has that many
  words, the four slots \<open>write_index\<close>, \<open>write_index + 1\<close>, \<open>read_index\<close> and
  \<open>read_index + 1\<close> lie inside it, and whichever call comes next does not trap on an
  array bound.
\<close>

theorem uddw_indices_stay_in_buffer:
  assumes "buffer_size = 2 ^ k" and "1 \<le> k" and "k < 32"
    and "length buffer = unat buffer_size"
  shows "\<forall>cfg \<in> set (uddw_run calls
             \<lparr>cfg_chan = c, cfg_state = nbsp_init buffer_size, cfg_buffer = buffer\<rparr>).
           even (read_index (cfg_state cfg)) \<and> even (write_index (cfg_state cfg)) \<and>
           read_index (cfg_state cfg) < buffer_size \<and>
           write_index (cfg_state cfg) < buffer_size \<and>
           length (cfg_buffer cfg) = unat buffer_size \<and>
           unat (write_index (cfg_state cfg)) < length (cfg_buffer cfg) \<and>
           unat (write_index (cfg_state cfg) + 1) < length (cfg_buffer cfg) \<and>
           unat (read_index (cfg_state cfg)) < length (cfg_buffer cfg) \<and>
           unat (read_index (cfg_state cfg) + 1) < length (cfg_buffer cfg) \<and>
           (\<forall>call. uddw_step call cfg \<noteq> Inl Bounds_Trap)"
proof
  fix cfg
  assume run: "cfg \<in> set (uddw_run calls
             \<lparr>cfg_chan = c, cfg_state = nbsp_init buffer_size, cfg_buffer = buffer\<rparr>)"
  have len: "length buffer = 2 ^ k"
    using assms(1,3,4) by (simp add: unat_two_power)
  have "uddw_indices_ok k
          \<lparr>cfg_chan = c, cfg_state = nbsp_init buffer_size, cfg_buffer = buffer\<rparr>"
    unfolding assms(1) using assms(3) len by (rule nbsp_init_indices_ok)
  then have "\<forall>x \<in> set (uddw_run calls
             \<lparr>cfg_chan = c, cfg_state = nbsp_init buffer_size, cfg_buffer = buffer\<rparr>).
           uddw_indices_ok k x"
    by (rule uddw_run_indices_ok [OF assms(3,2)])
  with run have ok: "uddw_indices_ok k cfg"
    by blast
  have usz: "unat buffer_size = 2 ^ k"
    using assms(1,3) by (simp add: unat_two_power)
  have wi: "unat (write_index (cfg_state cfg)) < length (cfg_buffer cfg) \<and>
            unat (write_index (cfg_state cfg) + 1) < length (cfg_buffer cfg)"
    using ok by (intro index_in_buffer [OF assms(3,2)]) (simp_all add: uddw_indices_ok_def)
  have ri: "unat (read_index (cfg_state cfg)) < length (cfg_buffer cfg) \<and>
            unat (read_index (cfg_state cfg) + 1) < length (cfg_buffer cfg)"
    using ok by (intro index_in_buffer [OF assms(3,2)]) (simp_all add: uddw_indices_ok_def)
  have trap: "\<forall>call. uddw_step call cfg \<noteq> Inl Bounds_Trap"
    using uddw_step_indices_ok(1) [OF assms(3,2) ok] by blast
  from ok wi ri trap usz
  show "even (read_index (cfg_state cfg)) \<and> even (write_index (cfg_state cfg)) \<and>
           read_index (cfg_state cfg) < buffer_size \<and>
           write_index (cfg_state cfg) < buffer_size \<and>
           length (cfg_buffer cfg) = unat buffer_size \<and>
           unat (write_index (cfg_state cfg)) < length (cfg_buffer cfg) \<and>
           unat (write_index (cfg_state cfg) + 1) < length (cfg_buffer cfg) \<and>
           unat (read_index (cfg_state cfg)) < length (cfg_buffer cfg) \<and>
           unat (read_index (cfg_state cfg) + 1) < length (cfg_buffer cfg) \<and>
           (\<forall>call. uddw_step call cfg \<noteq> Inl Bounds_Trap)"
    unfolding assms(1) by (simp add: uddw_indices_ok_def)
qed

theorem uddw_indices_stay_in_buffer_witness:
  "(4::32 word) = 2 ^ 2 \<and> (1::nat) \<le> 2 \<and> (2::nat) < 32 \<and>
   length [0, 0, 0, 0 :: 32 word] = unat (4::32 word) \<and>
   list_all
     (\<lambda>cfg. even (read_index (cfg_state cfg)) \<and> even (write_index (cfg_state cfg)) \<and>
            read_index (cfg_state cfg) < 4 \<and> write_index (cfg_state cfg) < 4 \<and>
            length (cfg_buffer cfg) = unat (4::32 word) \<and>
            unat (write_index (cfg_state cfg)) < length (cfg_buffer cfg) \<and>
            unat (write_index (cfg_state cfg) + 1) < length (cfg_buffer cfg) \<and>
            unat (read_index (cfg_state cfg)) < length (cfg_buffer cfg) \<and>
            unat (read_index (cfg_state cfg) + 1) < length (cfg_buffer cfg) \<and>
            (\<forall>call. uddw_step call cfg \<noteq> Inl Bounds_Trap))
     (uddw_run example_calls example_config) \<and>
   map (\<lambda>cfg. (read_index (cfg_state cfg), write_index (cfg_state cfg)))
     (uddw_run example_calls example_config) =
     [(0, 0), (0, 0), (0, 2), (0, 2), (2, 2), (2, 2)]"
proof -
  have size: "(4::32 word) = 2 ^ 2"
    by simp
  have len: "length [0, 0, 0, 0 :: 32 word] = unat (4::32 word)"
    by simp
  have trace: "map (\<lambda>cfg. (read_index (cfg_state cfg), write_index (cfg_state cfg)))
      (uddw_run example_calls example_config) =
      [(0, 0), (0, 0), (0, 2), (0, 2), (2, 2), (2, 2)]"
    by (simp add: example_calls_def example_config_def nbsp_init_def nbsp_uddw_send_def
        nbsp_uddw_handle_ack_def inct_def outuint_def buffer_set_def buffer_get_def)
  have "(1::nat) \<le> 2" and "(2::nat) < 32"
    by simp_all
  with uddw_indices_stay_in_buffer [OF size _ _ len, of example_calls
      "\<lparr>chan_in = [Token XS1_CT_END, Token XS1_CT_END], chan_out = []\<rparr>"] size len trace
  show ?thesis
    unfolding list_all_iff example_config_def by blast
qed

end
